theory Spec2Isabelle
  imports Main "HOL-Library.Word" "HOL-Library.AList"
begin

section \<open>JavaScript values\<close>

text \<open>
  A JavaScript string is a sequence of UTF-16 code units; \<open>length\<close> counts code units,
  as \<^verbatim>\<open>String.prototype.length\<close> does. String literals of the source are ASCII and
  are embedded code unit by code unit.
\<close>

type_synonym code_unit = "16 word"
type_synonym jsstring = "code_unit list"

definition js :: "string \<Rightarrow> jsstring" where
  "js s = map of_char s"

text \<open>
  The values that reach the field definitions: \<^verbatim>\<open>undefined\<close>, \<^verbatim>\<open>null\<close>, booleans,
  integer-valued numbers, strings, arrays and plain objects (property names of the source
  are ASCII identifiers, kept as \<open>string\<close>).
\<close>

datatype jsval =
    JUndefined
  | JNull
  | JBool bool
  | JNum int
  | JStr jsstring
  | JArr "jsval list"
  | JObj "(string \<times> jsval) list"

type_synonym obj = "(string \<times> jsval) list"

definition get_prop :: "obj \<Rightarrow> string \<Rightarrow> jsval" where
  \<comment> \<open>reading a property; a missing property reads as undefined\<close>
  "get_prop ob k = (case map_of ob k of None \<Rightarrow> JUndefined | Some v \<Rightarrow> v)"

fun truthy :: "jsval \<Rightarrow> bool" where
  \<comment> \<open>ToBoolean, the test of an \<^verbatim>\<open>if\<close>\<close>
  "truthy JUndefined = False"
| "truthy JNull = False"
| "truthy (JBool b) = b"
| "truthy (JNum n) = (n \<noteq> 0)"
| "truthy (JStr s) = (s \<noteq> [])"
| "truthy (JArr xs) = True"
| "truthy (JObj ob) = True"

datatype error = TypeError | UnknownFieldType

definition isWhiteSpace :: "code_unit \<Rightarrow> bool" where
  \<comment> \<open>WhiteSpace and LineTerminator of ECMAScript, the code units \<^verbatim>\<open>trim\<close> strips\<close>
  "isWhiteSpace c \<longleftrightarrow>
     c \<in> {0x0009, 0x000A, 0x000B, 0x000C, 0x000D, 0x0020, 0x00A0, 0x1680,
          0x2028, 0x2029, 0x202F, 0x205F, 0x3000, 0xFEFF}
     \<or> (0x2000 \<le> c \<and> c \<le> 0x200A)"

definition trim :: "jsstring \<Rightarrow> jsstring" where
  "trim s = rev (dropWhile isWhiteSpace (rev (dropWhile isWhiteSpace s)))"

definition call_trim :: "jsval \<Rightarrow> error + jsstring" where
  \<comment> \<open>\<^verbatim>\<open>v.trim()\<close>: only a string has the method; on \<^verbatim>\<open>undefined\<close> and \<^verbatim>\<open>null\<close> the
      property read itself throws, on any other value the call of \<^verbatim>\<open>undefined\<close> does\<close>
  "call_trim v = (case v of JStr s \<Rightarrow> Inr (trim s) | _ \<Rightarrow> Inl TypeError)"

section \<open>The object store\<close>

text \<open>
  Objects are held in a store and named by their address, so that two references to one
  object are visible as such. \<open>fresh\<close> is the next unused address.
\<close>

type_synonym addr = nat

record heap =
  objs :: "addr \<Rightarrow> obj"
  fresh :: addr

definition alloc :: "obj \<Rightarrow> heap \<Rightarrow> addr \<times> heap" where
  \<comment> \<open>evaluating an object literal\<close>
  "alloc ob h = (fresh h, h\<lparr>objs := (objs h)(fresh h := ob), fresh := Suc (fresh h)\<rparr>)"

definition assign :: "addr \<Rightarrow> string \<Rightarrow> jsval \<Rightarrow> heap \<Rightarrow> heap" where
  \<comment> \<open>the assignment \<^verbatim>\<open>a.k = v\<close> on the object at \<open>a\<close>\<close>
  "assign a k v h = h\<lparr>objs := (objs h)(a := AList.update k v (objs h a))\<rparr>"

section \<open>Field instances and field type definitions\<close>

text \<open>
  An instance holds its id, its tag and a reference to its configuration object. The
  instance itself is kept as a value: the source never assigns to an instance, it builds a
  new one by spreading the old. Of a field definition the tag, \<^verbatim>\<open>construct\<close> and
  \<^verbatim>\<open>validate\<close> are kept; \<^verbatim>\<open>validate\<close> reads the configuration through the instance's
  reference, hence its store argument. Its second parameter is declared \<^verbatim>\<open>string\<close>; the
  model takes any value, as the compiled code does.
\<close>

type_synonym ElementsType = string

record FormElementInstance =
  inst_id :: jsstring
  inst_type :: ElementsType
  extraAttributes :: addr

record FormElement =
  fe_type :: ElementsType
  construct :: "jsstring \<Rightarrow> FormElementInstance"
  validate :: "heap \<Rightarrow> FormElementInstance \<Rightarrow> jsval \<Rightarrow> error + bool"

subsection \<open>CheckboxField.tsx, single checkbox\<close>

definition type_single :: ElementsType where
  "type_single = ''CheckboxField''"

definition extraAttributes_single_literal :: obj where
  "extraAttributes_single_literal =
     [(''label'', JStr (js ''Accept Terms and Conditions'')),
      (''helperText'', JStr (js ''You must agree to proceed'')),
      (''required'', JBool True)]"

definition extraAttributes_single :: addr where
  \<comment> \<open>the module-level constant: the address of the one object its literal creates\<close>
  "extraAttributes_single = 0"

definition CheckboxFieldFormElement_single :: FormElement where
  "CheckboxFieldFormElement_single =
     \<lparr> fe_type = type_single,
       construct = (\<lambda>ident.
         \<lparr> inst_id = ident, inst_type = type_single, extraAttributes = extraAttributes_single \<rparr>),
       validate = (\<lambda>h formElement currentValue.
         if truthy (get_prop (objs h (extraAttributes formElement)) ''required'')
         then Inr (currentValue = JStr (js ''true''))
         else Inr True) \<rparr>"

subsection \<open>CheckboxField.tsx, checkbox group\<close>

definition type_group :: ElementsType where
  "type_group = ''CheckboxField''"

definition extraAttributes_group_literal :: obj where
  "extraAttributes_group_literal =
     [(''label'', JStr (js ''Select your interests'')),
      (''helperText'', JStr (js ''Choose all that apply'')),
      (''required'', JBool False),
      (''options'', JArr [JStr (js ''Option 1''), JStr (js ''Option 2''), JStr (js ''Option 3'')])]"

definition extraAttributes_group :: addr where
  "extraAttributes_group = 1"

definition CheckboxFieldFormElement_group :: FormElement where
  "CheckboxFieldFormElement_group =
     \<lparr> fe_type = type_group,
       construct = (\<lambda>ident.
         \<lparr> inst_id = ident, inst_type = type_group, extraAttributes = extraAttributes_group \<rparr>),
       validate = (\<lambda>h formElement currentValue.
         if truthy (get_prop (objs h (extraAttributes formElement)) ''required'')
         then (case call_trim currentValue of
                 Inl e \<Rightarrow> Inl e
               | Inr t \<Rightarrow> Inr (0 < length t))
         else Inr True) \<rparr>"

subsection \<open>The store once both modules are loaded\<close>

definition loaded :: heap where
  "loaded =
     \<lparr> objs = (\<lambda>_. [])(extraAttributes_single := extraAttributes_single_literal,
                        extraAttributes_group := extraAttributes_group_literal),
       fresh = 2 \<rparr>"

subsection \<open>The two definitions side by side\<close>

definition fieldDefinitions :: "FormElement list" where
  "fieldDefinitions = [CheckboxFieldFormElement_single, CheckboxFieldFormElement_group]"

section \<open>The registry\<close>

text \<open>
  Modelled from the spec: the Field Type Registry (the module that collects the field
  definitions is not among the sources). It is a fixed mapping from a type tag to a
  definition, each definition entered under its own tag; as in an object literal, a later
  entry under a key replaces an earlier one. \<open>resolve\<close> fails with \<open>UnknownFieldType\<close> on a
  tag that is not registered.
\<close>

type_synonym registry = "ElementsType \<rightharpoonup> FormElement"

definition register :: "FormElement \<Rightarrow> registry \<Rightarrow> registry" where
  \<comment> \<open>Modelled from the spec: one registry entry, the definition under its own tag\<close>
  "register d reg = reg(fe_type d \<mapsto> d)"

definition FormElements :: "FormElement list \<Rightarrow> registry" where
  \<comment> \<open>Modelled from the spec: the registry that holds the given definitions\<close>
  "FormElements ds = fold register ds Map.empty"

definition resolve :: "registry \<Rightarrow> ElementsType \<Rightarrow> error + FormElement" where
  \<comment> \<open>Modelled from the spec: \<open>resolve(tag)\<close>, failing on a tag that is not registered\<close>
  "resolve reg tag = (case reg tag of None \<Rightarrow> Inl UnknownFieldType | Some d \<Rightarrow> Inr d)"

section \<open>Configuration validation: the zod schemas\<close>

text \<open>
  A zod schema is modelled by its \<^verbatim>\<open>safeParse\<close>: \<open>Some\<close> of the parsed data when the
  input is accepted, \<open>None\<close> when it is rejected (the list of issues is not modelled).
\<close>

type_synonym schema = "jsval \<Rightarrow> jsval option"

definition z_string :: schema where
  "z_string v = (case v of JStr s \<Rightarrow> Some (JStr s) | _ \<Rightarrow> None)"

definition z_boolean :: schema where
  "z_boolean v = (case v of JBool b \<Rightarrow> Some (JBool b) | _ \<Rightarrow> None)"

fun js_length :: "jsval \<Rightarrow> nat option" where
  "js_length (JStr s) = Some (length s)"
| "js_length (JArr xs) = Some (length xs)"
| "js_length _ = None"

definition z_min :: "nat \<Rightarrow> schema \<Rightarrow> schema" where
  \<comment> \<open>\<^verbatim>\<open>.min(n)\<close> on a string schema or an array schema: a lower bound on the length\<close>
  "z_min n sch v =
     (case sch v of
        None \<Rightarrow> None
      | Some d \<Rightarrow> (case js_length d of
                     None \<Rightarrow> None
                   | Some l \<Rightarrow> if n \<le> l then Some d else None))"

definition z_max :: "nat \<Rightarrow> schema \<Rightarrow> schema" where
  \<comment> \<open>\<^verbatim>\<open>.max(n)\<close> on a string schema: an upper bound on the length\<close>
  "z_max n sch v =
     (case sch v of
        None \<Rightarrow> None
      | Some d \<Rightarrow> (case js_length d of
                     None \<Rightarrow> None
                   | Some l \<Rightarrow> if l \<le> n then Some d else None))"

definition z_array :: "schema \<Rightarrow> schema" where
  "z_array el v =
     (case v of JArr xs \<Rightarrow> map_option JArr (those (map el xs)) | _ \<Rightarrow> None)"

definition z_object :: "(string \<times> schema) list \<Rightarrow> schema" where
  \<comment> \<open>every key of the shape is parsed from the property of that name (\<^verbatim>\<open>undefined\<close>
      when missing); properties outside the shape are stripped from the result\<close>
  "z_object shape v =
     (case v of
        JObj ob \<Rightarrow>
          map_option JObj
            (those (map (\<lambda>(k, sch). map_option (Pair k) (sch (get_prop ob k))) shape))
      | _ \<Rightarrow> None)"

definition propertiesSchema_single :: schema where
  "propertiesSchema_single =
     z_object
       [(''label'', z_max 50 (z_min 2 z_string)),
        (''helperText'', z_max 200 z_string),
        (''required'', z_boolean)]"

definition propertiesSchema_group :: schema where
  "propertiesSchema_group =
     z_object
       [(''label'', z_max 50 (z_min 2 z_string)),
        (''helperText'', z_max 200 z_string),
        (''required'', z_boolean),
        (''options'', z_min 1 (z_array z_string))]"

section \<open>Committing a configuration: the properties form\<close>

definition zodResolver :: "schema \<Rightarrow> obj \<Rightarrow> obj option" where
  \<comment> \<open>the resolver hands the form's field values to the schema and returns the parsed data\<close>
  "zodResolver sch fieldValues =
     (case sch (JObj fieldValues) of Some (JObj data) \<Rightarrow> Some data | _ \<Rightarrow> None)"

definition handleSubmit :: "(obj \<Rightarrow> obj option) \<Rightarrow> (obj \<Rightarrow> 's \<Rightarrow> 's) \<Rightarrow> obj \<Rightarrow> 's \<Rightarrow> 's" where
  \<comment> \<open>react-hook-form: \<^verbatim>\<open>onValid\<close> runs on the resolved data only when the resolver reports
      no error; no \<^verbatim>\<open>onInvalid\<close> is passed, so nothing runs otherwise\<close>
  "handleSubmit resolver onValid fieldValues st =
     (case resolver fieldValues of None \<Rightarrow> st | Some data \<Rightarrow> onValid data st)"

text \<open>
  \<^verbatim>\<open>applyChanges\<close> builds a new configuration object and a new instance around it and
  hands the instance to \<^verbatim>\<open>updateElement\<close> of the designer context. The context is not
  part of the sources read here: \<open>upd\<close> stands for its \<^verbatim>\<open>updateElement\<close>, acting on
  whatever the designer keeps as its document.
\<close>

definition applyChanges_single ::
  "(jsstring \<Rightarrow> FormElementInstance \<Rightarrow> 'doc \<Rightarrow> 'doc) \<Rightarrow> FormElementInstance \<Rightarrow> obj
     \<Rightarrow> heap \<times> 'doc \<Rightarrow> heap \<times> 'doc" where
  "applyChanges_single upd element values st =
     (let label = get_prop values ''label'';
          helperText = get_prop values ''helperText'';
          required = get_prop values ''required'';
          (a, h') = alloc [(''label'', label), (''helperText'', helperText),
                           (''required'', required)] (fst st)
      in (h', upd (inst_id element) (element\<lparr>extraAttributes := a\<rparr>) (snd st)))"

definition applyChanges_group ::
  "(jsstring \<Rightarrow> FormElementInstance \<Rightarrow> 'doc \<Rightarrow> 'doc) \<Rightarrow> FormElementInstance \<Rightarrow> obj
     \<Rightarrow> heap \<times> 'doc \<Rightarrow> heap \<times> 'doc" where
  "applyChanges_group upd element values st =
     (let label = get_prop values ''label'';
          helperText = get_prop values ''helperText'';
          required = get_prop values ''required'';
          options = get_prop values ''options'';
          (a, h') = alloc [(''label'', label), (''helperText'', helperText),
                           (''required'', required), (''options'', options)] (fst st)
      in (h', upd (inst_id element) (element\<lparr>extraAttributes := a\<rparr>) (snd st)))"

text \<open>
  Modelled from the spec: \<^verbatim>\<open>updateElement\<close> of the designer context (the hook
  \<^verbatim>\<open>useDesigner\<close> and its context are not among the sources). The document is the ordered
  sequence of instances; the instance with the given id is replaced, every other instance
  and the order are kept.
\<close>

definition updateElement ::
  "jsstring \<Rightarrow> FormElementInstance \<Rightarrow> FormElementInstance list \<Rightarrow> FormElementInstance list" where
  \<comment> \<open>Modelled from the spec: the instance with the id is replaced by the one given\<close>
  "updateElement ident element elements =
     map (\<lambda>e. if inst_id e = ident then element else e) elements"

section \<open>Submission validation\<close>

text \<open>
  Modelled from the spec: the Submission Validator (the component that walks a published
  form and calls \<^verbatim>\<open>validate\<close> is not among the sources). For every instance, in
  document order, the definition is resolved from the registry by the instance's tag, the
  submitted value is read by the instance's id (an absent entry reads as the empty
  string, the empty value of the declared parameter type), \<^verbatim>\<open>validate\<close> is called and the
  verdict recorded; an error of \<^verbatim>\<open>validate\<close> is recorded as an invalid entry. \<open>allValid\<close>
  holds iff every recorded verdict does.
\<close>

type_synonym submission = "jsstring \<rightharpoonup> jsstring"

record report =
  perField :: "(jsstring \<times> bool) list"
  allValid :: bool

definition submitted :: "submission \<Rightarrow> jsstring \<Rightarrow> jsval" where
  \<comment> \<open>Modelled from the spec: the submitted value of an id, empty when there is none\<close>
  "submitted vs ident = (case vs ident of None \<Rightarrow> JStr [] | Some s \<Rightarrow> JStr s)"

definition verdict :: "error + bool \<Rightarrow> bool" where
  \<comment> \<open>Modelled from the spec: the report entry of a validation outcome\<close>
  "verdict r = (case r of Inl e \<Rightarrow> False | Inr b \<Rightarrow> b)"

fun validate_fields ::
  "registry \<Rightarrow> heap \<Rightarrow> submission \<Rightarrow> FormElementInstance list \<Rightarrow> error + (jsstring \<times> bool) list" where
  \<comment> \<open>Modelled from the spec: the per-field entries, in document order\<close>
  "validate_fields reg h vs [] = Inr []"
| "validate_fields reg h vs (i # rest) =
     (case resolve reg (inst_type i) of
        Inl e \<Rightarrow> Inl e
      | Inr d \<Rightarrow>
          (case validate_fields reg h vs rest of
             Inl e \<Rightarrow> Inl e
           | Inr entries \<Rightarrow>
               Inr ((inst_id i, verdict (validate d h i (submitted vs (inst_id i)))) # entries)))"

definition validateForm ::
  "registry \<Rightarrow> heap \<Rightarrow> FormElementInstance list \<Rightarrow> submission \<Rightarrow> error + report" where
  \<comment> \<open>Modelled from the spec: \<open>validate(document, submittedValues)\<close>\<close>
  "validateForm reg h document vs =
     (case validate_fields reg h vs document of
        Inl e \<Rightarrow> Inl e
      | Inr entries \<Rightarrow> Inr \<lparr> perField = entries, allValid = list_all snd entries \<rparr>)"

section \<open>Example stores and instances\<close>

definition group_config :: "bool \<Rightarrow> jsstring list \<Rightarrow> obj" where
  "group_config r opts =
     [(''label'', JStr (js ''Select your interests'')),
      (''helperText'', JStr (js ''Choose all that apply'')),
      (''required'', JBool r),
      (''options'', JArr (map JStr opts))]"

definition single_config :: "bool \<Rightarrow> obj" where
  "single_config r =
     [(''label'', JStr (js ''Accept Terms and Conditions'')),
      (''helperText'', JStr (js ''You must agree to proceed'')),
      (''required'', JBool r)]"

definition with_config :: "obj \<Rightarrow> heap" where
  \<comment> \<open>the loaded store after one more object literal has been evaluated\<close>
  "with_config ob = snd (alloc ob loaded)"

definition placed :: "FormElement \<Rightarrow> string \<Rightarrow> FormElementInstance" where
  \<comment> \<open>an instance of the definition whose configuration is the object made last\<close>
  "placed d ident = (construct d (js ident))\<lparr>extraAttributes := 2\<rparr>"

section \<open>Trimming\<close>

lemma dropWhile_keeps_rejected:
  "(\<exists>x\<in>set (dropWhile P xs). \<not> P x) \<longleftrightarrow> (\<exists>x\<in>set xs. \<not> P x)"
  by (induction xs) auto

lemma trim_nonempty: "trim s \<noteq> [] \<longleftrightarrow> (\<exists>c\<in>set s. \<not> isWhiteSpace c)"
proof -
  have "trim s \<noteq> [] \<longleftrightarrow> (\<exists>x\<in>set (rev (dropWhile isWhiteSpace s)). \<not> isWhiteSpace x)"
    unfolding trim_def by (simp add: dropWhile_eq_Nil_conv)
  also have "\<dots> \<longleftrightarrow> (\<exists>x\<in>set s. \<not> isWhiteSpace x)"
    using dropWhile_keeps_rejected [of isWhiteSpace s] by simp
  finally show ?thesis .
qed

section \<open>Facts about the example stores\<close>

lemma placed_config [simp]:
  "objs (with_config ob) (extraAttributes (placed d ident)) = ob"
  by (simp add: with_config_def placed_def alloc_def loaded_def)

lemma placed_fields [simp]:
  "inst_id (placed d ident) = inst_id (construct d (js ident))"
  "inst_type (placed d ident) = inst_type (construct d (js ident))"
  by (simp_all add: placed_def)

lemma get_prop_group_config [simp]:
  "get_prop (group_config r opts) ''required'' = JBool r"
  "get_prop (group_config r opts) ''options'' = JArr (map JStr opts)"
  by (simp_all add: get_prop_def group_config_def)

lemma get_prop_single_config [simp]:
  "get_prop (single_config r) ''required'' = JBool r"
  by (simp add: get_prop_def single_config_def)

section \<open>Value validation of the checkbox group\<close>

text \<open>
  C1: a checkbox-group instance whose configuration has \<open>required = true\<close> and
  \<open>options = ["Option 1", "Option 2"]\<close> is invalid on the submitted value \<open>""\<close> and valid
  on \<open>"Option 1"\<close>.
\<close>

theorem group_required_scenario:
  assumes "get_prop (objs h (extraAttributes i)) ''required'' = JBool True"
    and "get_prop (objs h (extraAttributes i)) ''options'' =
           JArr [JStr (js ''Option 1''), JStr (js ''Option 2'')]"
  shows "validate CheckboxFieldFormElement_group h i (JStr (js '''')) = Inr False
       \<and> validate CheckboxFieldFormElement_group h i (JStr (js ''Option 1'')) = Inr True"
  using assms(1)
  by (simp add: CheckboxFieldFormElement_group_def call_trim_def trim_def js_def isWhiteSpace_def)

theorem group_required_scenario_witness:
  "validate CheckboxFieldFormElement_group
     (with_config (group_config True [js ''Option 1'', js ''Option 2'']))
     (placed CheckboxFieldFormElement_group ''a'') (JStr (js '''')) = Inr False
   \<and> validate CheckboxFieldFormElement_group
     (with_config (group_config True [js ''Option 1'', js ''Option 2'']))
     (placed CheckboxFieldFormElement_group ''a'') (JStr (js ''Option 1'')) = Inr True"
  by (rule group_required_scenario) simp_all

text \<open>
  C10: a required checkbox group accepts every submitted string that has a code unit
  which is not white space, whatever the configured options are, and rejects a string of
  white space only.
\<close>

theorem group_required_ignores_options:
  assumes "get_prop (objs h (extraAttributes i)) ''required'' = JBool True"
  shows "validate CheckboxFieldFormElement_group h i (JStr s)
           = Inr (\<exists>c\<in>set s. \<not> isWhiteSpace c)"
  using assms
  by (simp add: CheckboxFieldFormElement_group_def call_trim_def trim_nonempty)

text \<open>
  The value \<open>"Tea"\<close> is accepted by a required group that offers only \<open>"Option 1"\<close>.
\<close>

theorem group_required_ignores_options_witness:
  "get_prop (objs (with_config (group_config True [js ''Option 1'']))
      (extraAttributes (placed CheckboxFieldFormElement_group ''a''))) ''options''
     = JArr [JStr (js ''Option 1'')]
   \<and> validate CheckboxFieldFormElement_group
       (with_config (group_config True [js ''Option 1'']))
       (placed CheckboxFieldFormElement_group ''a'') (JStr (js ''Tea'')) = Inr True"
  using group_required_ignores_options
    [of "with_config (group_config True [js ''Option 1''])"
        "placed CheckboxFieldFormElement_group ''a''" "js ''Tea''"]
  by (simp add: js_def isWhiteSpace_def)

section \<open>What the schemas accept\<close>

lemma z_string_eq: "z_string v = (if \<exists>s. v = JStr s then Some v else None)"
  by (cases v) (simp_all add: z_string_def)

lemma z_boolean_eq: "z_boolean v = (if \<exists>b. v = JBool b then Some v else None)"
  by (cases v) (simp_all add: z_boolean_def)

lemma z_string_bounds_eq:
  "z_max hi (z_min lo z_string) v =
     (if \<exists>s. v = JStr s \<and> lo \<le> length s \<and> length s \<le> hi then Some v else None)"
  by (cases v) (simp_all add: z_max_def z_min_def z_string_def)

lemma z_string_max_eq:
  "z_max hi z_string v = (if \<exists>s. v = JStr s \<and> length s \<le> hi then Some v else None)"
  by (cases v) (simp_all add: z_max_def z_string_def)

lemma those_z_string:
  "those (map z_string xs) = (if \<forall>x\<in>set xs. \<exists>s. x = JStr s then Some xs else None)"
proof (induction xs)
  case Nil
  show ?case by simp
next
  case (Cons x xs)
  have first: "z_string x = (if \<exists>s. x = JStr s then Some x else None)"
    by (rule z_string_eq)
  show ?case
    using Cons.IH by (cases "\<exists>s. x = JStr s") (simp_all add: first)
qed

lemma z_array_string_min_eq:
  "z_min lo (z_array z_string) v =
     (if \<exists>xs. v = JArr xs \<and> lo \<le> length xs \<and> (\<forall>x\<in>set xs. \<exists>s. x = JStr s)
      then Some v else None)"
  by (cases v) (simp_all add: z_min_def z_array_def those_z_string)

lemma one_le_length: "Suc 0 \<le> length xs \<longleftrightarrow> xs \<noteq> []"
  by (cases xs) simp_all

lemma propertiesSchema_single_JObj:
  "propertiesSchema_single (JObj ob) =
     (if (\<exists>l. get_prop ob ''label'' = JStr l \<and> 2 \<le> length l \<and> length l \<le> 50)
         \<and> (\<exists>t. get_prop ob ''helperText'' = JStr t \<and> length t \<le> 200)
         \<and> (\<exists>b. get_prop ob ''required'' = JBool b)
      then Some (JObj [(''label'', get_prop ob ''label''),
                       (''helperText'', get_prop ob ''helperText''),
                       (''required'', get_prop ob ''required'')])
      else None)"
  by (auto simp add: propertiesSchema_single_def z_object_def z_string_bounds_eq
      z_string_max_eq z_boolean_eq)

lemma propertiesSchema_group_JObj:
  "propertiesSchema_group (JObj ob) =
     (if (\<exists>l. get_prop ob ''label'' = JStr l \<and> 2 \<le> length l \<and> length l \<le> 50)
         \<and> (\<exists>t. get_prop ob ''helperText'' = JStr t \<and> length t \<le> 200)
         \<and> (\<exists>b. get_prop ob ''required'' = JBool b)
         \<and> (\<exists>xs. get_prop ob ''options'' = JArr xs \<and> xs \<noteq> []
                \<and> (\<forall>x\<in>set xs. \<exists>s. x = JStr s))
      then Some (JObj [(''label'', get_prop ob ''label''),
                       (''helperText'', get_prop ob ''helperText''),
                       (''required'', get_prop ob ''required''),
                       (''options'', get_prop ob ''options'')])
      else None)"
  by (auto simp add: propertiesSchema_group_def z_object_def z_string_bounds_eq
      z_string_max_eq z_boolean_eq z_array_string_min_eq one_le_length)

lemma propertiesSchema_not_object:
  "(\<nexists>ob. v = JObj ob) \<Longrightarrow> propertiesSchema_single v = None \<and> propertiesSchema_group v = None"
  by (cases v) (simp_all add: propertiesSchema_single_def propertiesSchema_group_def z_object_def)

text \<open>
  C6: the configuration validator accepts a proposed configuration if and only if its
  label is a string of length 2 to 50, its helper text a string of length at most 200, its
  \<open>required\<close> a boolean and, for the checkbox group, its options a non-empty list of
  strings.
\<close>

theorem schema_accepts_iff:
  "(propertiesSchema_single v \<noteq> None \<longleftrightarrow>
      (\<exists>ob. v = JObj ob
         \<and> (\<exists>l. get_prop ob ''label'' = JStr l \<and> 2 \<le> length l \<and> length l \<le> 50)
         \<and> (\<exists>t. get_prop ob ''helperText'' = JStr t \<and> length t \<le> 200)
         \<and> (\<exists>b. get_prop ob ''required'' = JBool b)))
 \<and> (propertiesSchema_group v \<noteq> None \<longleftrightarrow>
      (\<exists>ob. v = JObj ob
         \<and> (\<exists>l. get_prop ob ''label'' = JStr l \<and> 2 \<le> length l \<and> length l \<le> 50)
         \<and> (\<exists>t. get_prop ob ''helperText'' = JStr t \<and> length t \<le> 200)
         \<and> (\<exists>b. get_prop ob ''required'' = JBool b)
         \<and> (\<exists>xs. get_prop ob ''options'' = JArr xs \<and> xs \<noteq> []
                \<and> (\<forall>x\<in>set xs. \<exists>s. x = JStr s))))"
proof (cases "\<exists>ob. v = JObj ob")
  case True
  then obtain ob where "v = JObj ob" ..
  then show ?thesis
    by (simp add: propertiesSchema_single_JObj propertiesSchema_group_JObj)
next
  case False
  then show ?thesis
    using propertiesSchema_not_object [of v] by simp
qed

text \<open>
  A group configuration with one option is accepted and its options are strings; the same
  configuration with no option is rejected.
\<close>

theorem schema_accepts_iff_witness:
  "propertiesSchema_group (JObj (group_config True [js ''Option 1''])) \<noteq> None
 \<and> get_prop (group_config True [js ''Option 1'']) ''options'' = JArr [JStr (js ''Option 1'')]
 \<and> propertiesSchema_group (JObj (group_config True [])) = None"
  using schema_accepts_iff [of "JObj (group_config True [js ''Option 1''])"]
    schema_accepts_iff [of "JObj (group_config True [])"]
  by (auto simp add: group_config_def get_prop_def js_def)

section \<open>Construction\<close>

lemma loaded_single [simp]: "objs loaded extraAttributes_single = extraAttributes_single_literal"
  by (simp add: loaded_def extraAttributes_single_def extraAttributes_group_def)

lemma loaded_group [simp]: "objs loaded extraAttributes_group = extraAttributes_group_literal"
  by (simp add: loaded_def extraAttributes_single_def extraAttributes_group_def)

lemma single_literal_accepted:
  "propertiesSchema_single (JObj extraAttributes_single_literal)
     = Some (JObj extraAttributes_single_literal)"
  by (auto simp add: propertiesSchema_single_JObj extraAttributes_single_literal_def
      get_prop_def js_def)

lemma group_literal_accepted:
  "propertiesSchema_group (JObj extraAttributes_group_literal)
     = Some (JObj extraAttributes_group_literal)"
  by (auto simp add: propertiesSchema_group_JObj extraAttributes_group_literal_def
      get_prop_def js_def)

text \<open>
  C3: for each of the two CheckboxField definitions and every id, the instance that
  \<open>construct\<close> returns carries the id and the tag, and its configuration, read in the
  store of the loaded modules, passes the definition's own schema.
\<close>

theorem construct_default_passes_schema:
  "propertiesSchema_single
     (JObj (objs loaded (extraAttributes (construct CheckboxFieldFormElement_single ident))))
     = Some (JObj extraAttributes_single_literal)
 \<and> propertiesSchema_group
     (JObj (objs loaded (extraAttributes (construct CheckboxFieldFormElement_group ident))))
     = Some (JObj extraAttributes_group_literal)
 \<and> inst_id (construct CheckboxFieldFormElement_single ident) = ident
 \<and> inst_id (construct CheckboxFieldFormElement_group ident) = ident
 \<and> inst_type (construct CheckboxFieldFormElement_single ident) = ''CheckboxField''
 \<and> inst_type (construct CheckboxFieldFormElement_group ident) = ''CheckboxField''"
  by (simp add: CheckboxFieldFormElement_single_def CheckboxFieldFormElement_group_def
      single_literal_accepted group_literal_accepted type_single_def type_group_def)

text \<open>The instance constructed for the id \<open>"a"\<close>, for both definitions.\<close>

theorem construct_default_passes_schema_witness:
  "propertiesSchema_single
     (JObj (objs loaded (extraAttributes (construct CheckboxFieldFormElement_single (js ''a'')))))
     = Some (JObj extraAttributes_single_literal)
 \<and> propertiesSchema_group
     (JObj (objs loaded (extraAttributes (construct CheckboxFieldFormElement_group (js ''a'')))))
     = Some (JObj extraAttributes_group_literal)"
  using construct_default_passes_schema [of "js ''a''"] by simp

section \<open>The validators in closed form\<close>

lemma validate_single_eq:
  "validate CheckboxFieldFormElement_single h i v =
     (if truthy (get_prop (objs h (extraAttributes i)) ''required'')
      then Inr (v = JStr (js ''true'')) else Inr True)"
  by (simp add: CheckboxFieldFormElement_single_def)

lemma validate_group_eq:
  "validate CheckboxFieldFormElement_group h i v =
     (if truthy (get_prop (objs h (extraAttributes i)) ''required'')
      then (case v of JStr s \<Rightarrow> Inr (\<exists>c\<in>set s. \<not> isWhiteSpace c) | _ \<Rightarrow> Inl TypeError)
      else Inr True)"
  by (cases v) (simp_all add: CheckboxFieldFormElement_group_def call_trim_def trim_nonempty)

lemma fe_type_single [simp]: "fe_type CheckboxFieldFormElement_single = ''CheckboxField''"
  by (simp add: CheckboxFieldFormElement_single_def type_single_def)

lemma fe_type_group [simp]: "fe_type CheckboxFieldFormElement_group = ''CheckboxField''"
  by (simp add: CheckboxFieldFormElement_group_def type_group_def)

lemma construct_single [simp]:
  "construct CheckboxFieldFormElement_single ident =
     \<lparr>inst_id = ident, inst_type = ''CheckboxField'', extraAttributes = extraAttributes_single\<rparr>"
  by (simp add: CheckboxFieldFormElement_single_def type_single_def)

lemma construct_group [simp]:
  "construct CheckboxFieldFormElement_group ident =
     \<lparr>inst_id = ident, inst_type = ''CheckboxField'', extraAttributes = extraAttributes_group\<rparr>"
  by (simp add: CheckboxFieldFormElement_group_def type_group_def)

section \<open>Value validation of the single checkbox\<close>

text \<open>
  C2: a single-checkbox instance whose configuration has \<open>required = true\<close> is valid
  exactly on the submitted string \<open>"true"\<close>, hence invalid on \<open>"false"\<close>; a validation
  report over that one field records \<open>true\<close> for the value \<open>"true"\<close> and \<open>false\<close> for
  \<open>"false"\<close>.
\<close>

theorem single_required_iff_true:
  assumes "get_prop (objs h (extraAttributes i)) ''required'' = JBool True"
    and "inst_type i = ''CheckboxField''"
  shows "validate CheckboxFieldFormElement_single h i v = Inr (v = JStr (js ''true''))
       \<and> validate CheckboxFieldFormElement_single h i (JStr (js ''false'')) = Inr False
       \<and> validateForm (FormElements [CheckboxFieldFormElement_single]) h [i]
            [inst_id i \<mapsto> js ''true'']
           = Inr \<lparr>perField = [(inst_id i, True)], allValid = True\<rparr>
       \<and> validateForm (FormElements [CheckboxFieldFormElement_single]) h [i]
            [inst_id i \<mapsto> js ''false'']
           = Inr \<lparr>perField = [(inst_id i, False)], allValid = False\<rparr>"
  using assms
  by (simp add: validate_single_eq validateForm_def submitted_def verdict_def js_def
      FormElements_def register_def resolve_def)

text \<open>The field \<open>B\<close> of the scenario, required, on both submitted values.\<close>

theorem single_required_iff_true_witness:
  "validate CheckboxFieldFormElement_single (with_config (single_config True))
     (placed CheckboxFieldFormElement_single ''B'') (JStr (js ''true'')) = Inr True
   \<and> validate CheckboxFieldFormElement_single (with_config (single_config True))
     (placed CheckboxFieldFormElement_single ''B'') (JStr (js ''false'')) = Inr False
   \<and> validateForm (FormElements [CheckboxFieldFormElement_single])
       (with_config (single_config True)) [placed CheckboxFieldFormElement_single ''B'']
       [js ''B'' \<mapsto> js ''false'']
       = Inr \<lparr>perField = [(js ''B'', False)], allValid = False\<rparr>"
  using single_required_iff_true
    [of "with_config (single_config True)" "placed CheckboxFieldFormElement_single ''B''"
        "JStr (js ''true'')"]
  by simp

section \<open>Validation of an absent value\<close>

text \<open>
  C9: for every instance, of either definition, validation of an absent submitted value
  never throws: the value read for an id without an entry is the empty string, on which,
  as on every string, both validators return a boolean (\<open>false\<close> when the instance is
  required, \<open>true\<close> otherwise), and the report over the instance records that boolean.
\<close>

theorem validate_absent_value:
  assumes "vs (inst_id i) = None"
  shows "submitted vs (inst_id i) = JStr []
       \<and> validate CheckboxFieldFormElement_single h i (submitted vs (inst_id i))
           = Inr (\<not> truthy (get_prop (objs h (extraAttributes i)) ''required''))
       \<and> validate CheckboxFieldFormElement_group h i (submitted vs (inst_id i))
           = Inr (\<not> truthy (get_prop (objs h (extraAttributes i)) ''required''))
       \<and> (\<exists>b. validate CheckboxFieldFormElement_single h i (JStr s) = Inr b)
       \<and> (\<exists>b. validate CheckboxFieldFormElement_group h i (JStr s) = Inr b)
       \<and> (inst_type i = ''CheckboxField'' \<longrightarrow>
            validateForm (FormElements [CheckboxFieldFormElement_single]) h [i] vs
              = Inr \<lparr>perField =
                      [(inst_id i, \<not> truthy (get_prop (objs h (extraAttributes i)) ''required''))],
                     allValid = (\<not> truthy (get_prop (objs h (extraAttributes i)) ''required''))\<rparr>
          \<and> validateForm (FormElements [CheckboxFieldFormElement_group]) h [i] vs
              = Inr \<lparr>perField =
                      [(inst_id i, \<not> truthy (get_prop (objs h (extraAttributes i)) ''required''))],
                     allValid = (\<not> truthy (get_prop (objs h (extraAttributes i)) ''required''))\<rparr>)"
proof -
  have absent: "submitted vs (inst_id i) = JStr []"
    using assms by (simp add: submitted_def)
  have single: "validate CheckboxFieldFormElement_single h i (JStr [])
                  = Inr (\<not> truthy (get_prop (objs h (extraAttributes i)) ''required''))"
    by (simp add: validate_single_eq js_def)
  have group: "validate CheckboxFieldFormElement_group h i (JStr [])
                  = Inr (\<not> truthy (get_prop (objs h (extraAttributes i)) ''required''))"
    by (simp add: validate_group_eq)
  have strings: "(\<exists>b. validate CheckboxFieldFormElement_single h i (JStr s) = Inr b)
               \<and> (\<exists>b. validate CheckboxFieldFormElement_group h i (JStr s) = Inr b)"
    by (auto simp add: validate_single_eq validate_group_eq)
  have reports: "inst_type i = ''CheckboxField'' \<longrightarrow>
            validateForm (FormElements [CheckboxFieldFormElement_single]) h [i] vs
              = Inr \<lparr>perField =
                      [(inst_id i, \<not> truthy (get_prop (objs h (extraAttributes i)) ''required''))],
                     allValid = (\<not> truthy (get_prop (objs h (extraAttributes i)) ''required''))\<rparr>
          \<and> validateForm (FormElements [CheckboxFieldFormElement_group]) h [i] vs
              = Inr \<lparr>perField =
                      [(inst_id i, \<not> truthy (get_prop (objs h (extraAttributes i)) ''required''))],
                     allValid = (\<not> truthy (get_prop (objs h (extraAttributes i)) ''required''))\<rparr>"
    by (simp add: validateForm_def FormElements_def register_def resolve_def verdict_def
        absent single group)
  from absent single group strings reports show ?thesis by simp
qed

text \<open>
  A required checkbox group and a required single checkbox, with nothing submitted: the
  verdict is \<open>false\<close> and the report records it.
\<close>

theorem validate_absent_value_witness:
  "validate CheckboxFieldFormElement_group
     (with_config (group_config True [js ''Option 1'', js ''Option 2'']))
     (placed CheckboxFieldFormElement_group ''a'')
     (submitted Map.empty (js ''a'')) = Inr False
 \<and> validateForm (FormElements [CheckboxFieldFormElement_group])
     (with_config (group_config True [js ''Option 1'', js ''Option 2'']))
     [placed CheckboxFieldFormElement_group ''a''] Map.empty
     = Inr \<lparr>perField = [(js ''a'', False)], allValid = False\<rparr>
 \<and> validate CheckboxFieldFormElement_single (with_config (single_config True))
     (placed CheckboxFieldFormElement_single ''a'')
     (submitted Map.empty (js ''a'')) = Inr False"
  using validate_absent_value
    [of Map.empty "placed CheckboxFieldFormElement_group ''a''"
        "with_config (group_config True [js ''Option 1'', js ''Option 2''])" "[]"]
    validate_absent_value
    [of Map.empty "placed CheckboxFieldFormElement_single ''a''"
        "with_config (single_config True)" "[]"]
  by (simp add: submitted_def)

section \<open>Resolving a tag\<close>

lemma fold_register_Some:
  "fold register ds reg t = Some d \<Longrightarrow> reg t = Some d \<or> (fe_type d = t \<and> d \<in> set ds)"
proof (induction ds arbitrary: reg)
  case Nil
  then show ?case by simp
next
  case (Cons x xs)
  from Cons.prems have "fold register xs (register x reg) t = Some d" by simp
  from Cons.IH [OF this] show ?case
    by (auto simp add: register_def split: if_splits)
qed

lemma FormElements_Some:
  "FormElements ds t = Some d \<Longrightarrow> fe_type d = t \<and> d \<in> set ds"
  using fold_register_Some [of ds Map.empty t d] by (simp add: FormElements_def)

lemma resolve_Inr: "resolve reg t = Inr d \<longleftrightarrow> reg t = Some d"
  by (simp add: resolve_def split: option.splits)

section \<open>Construction and aliasing\<close>

text \<open>
  C4, as stated, fails: the instances constructed for the ids \<open>"a"\<close> and \<open>"b"\<close> hold the
  same configuration object, so an assignment through the first is read through the
  second.
\<close>

theorem construct_aliases_counterexample:
  "js ''a'' \<noteq> js ''b''
 \<and> extraAttributes (construct CheckboxFieldFormElement_group (js ''a''))
     = extraAttributes (construct CheckboxFieldFormElement_group (js ''b''))
 \<and> get_prop (objs loaded
      (extraAttributes (construct CheckboxFieldFormElement_group (js ''b'')))) ''required''
     = JBool False
 \<and> get_prop (objs
      (assign (extraAttributes (construct CheckboxFieldFormElement_group (js ''a'')))
         ''required'' (JBool True) loaded)
      (extraAttributes (construct CheckboxFieldFormElement_group (js ''b'')))) ''required''
     = JBool True"
  by (simp add: js_def assign_def get_prop_def extraAttributes_group_literal_def)

lemma applyChanges_single_heap:
  "fst (applyChanges_single upd element values (h, doc)) =
     h\<lparr>objs := (objs h)(fresh h := [(''label'', get_prop values ''label''),
         (''helperText'', get_prop values ''helperText''),
         (''required'', get_prop values ''required'')]), fresh := Suc (fresh h)\<rparr>"
  by (simp add: applyChanges_single_def alloc_def)

lemma applyChanges_group_heap:
  "fst (applyChanges_group upd element values (h, doc)) =
     h\<lparr>objs := (objs h)(fresh h := [(''label'', get_prop values ''label''),
         (''helperText'', get_prop values ''helperText''),
         (''required'', get_prop values ''required''),
         (''options'', get_prop values ''options'')]), fresh := Suc (fresh h)\<rparr>"
  by (simp add: applyChanges_group_def alloc_def)

lemma applyChanges_single_doc:
  "snd (applyChanges_single upd element values (h, doc)) =
     upd (inst_id element) (element\<lparr>extraAttributes := fresh h\<rparr>) doc"
  by (simp add: applyChanges_single_def alloc_def)

lemma applyChanges_group_doc:
  "snd (applyChanges_group upd element values (h, doc)) =
     upd (inst_id element) (element\<lparr>extraAttributes := fresh h\<rparr>) doc"
  by (simp add: applyChanges_group_def alloc_def)

text \<open>
  C4, amended: \<open>construct\<close> returns an instance whose configuration is the module's
  default object itself, not a copy: any two instances constructed from one definition
  refer to the same object, which holds the defaults. The one path of the source that
  changes a configuration, \<open>applyChanges\<close>, writes the new values into a fresh object and
  leaves every existing object, hence the configuration of every other instance, as it was.
\<close>

theorem construct_shares_template:
  "extraAttributes (construct CheckboxFieldFormElement_single id1)
     = extraAttributes (construct CheckboxFieldFormElement_single id2)
 \<and> extraAttributes (construct CheckboxFieldFormElement_group id1)
     = extraAttributes (construct CheckboxFieldFormElement_group id2)
 \<and> objs loaded (extraAttributes (construct CheckboxFieldFormElement_single id1))
     = extraAttributes_single_literal
 \<and> objs loaded (extraAttributes (construct CheckboxFieldFormElement_group id1))
     = extraAttributes_group_literal
 \<and> (extraAttributes other < fresh h \<longrightarrow>
      objs (fst (applyChanges_single upd element values (h, doc))) (extraAttributes other)
        = objs h (extraAttributes other)
    \<and> objs (fst (applyChanges_group upd element values (h, doc))) (extraAttributes other)
        = objs h (extraAttributes other))"
  by (simp add: applyChanges_single_heap applyChanges_group_heap)

text \<open>Committing a configuration for \<open>"a"\<close> leaves the defaults that \<open>"b"\<close> refers to.\<close>

theorem construct_shares_template_witness:
  "extraAttributes (construct CheckboxFieldFormElement_group (js ''b'')) < fresh loaded
 \<and> objs (fst (applyChanges_group updateElement
       (construct CheckboxFieldFormElement_group (js ''a''))
       (group_config True [js ''Tea''])
       (loaded, [construct CheckboxFieldFormElement_group (js ''a''),
                 construct CheckboxFieldFormElement_group (js ''b'')])))
     (extraAttributes (construct CheckboxFieldFormElement_group (js ''b'')))
     = extraAttributes_group_literal"
  using construct_shares_template
    [of "js ''b''" "js ''b''" "construct CheckboxFieldFormElement_group (js ''b'')" loaded
        updateElement "construct CheckboxFieldFormElement_group (js ''a'')"
        "group_config True [js ''Tea'']"
        "[construct CheckboxFieldFormElement_group (js ''a''),
          construct CheckboxFieldFormElement_group (js ''b'')]"]
  by (simp add: loaded_def extraAttributes_group_def)

section \<open>Committing a configuration\<close>

lemma zodResolver_single:
  "zodResolver propertiesSchema_single fieldValues = Some data \<Longrightarrow>
     data = [(''label'', get_prop fieldValues ''label''),
             (''helperText'', get_prop fieldValues ''helperText''),
             (''required'', get_prop fieldValues ''required'')]
     \<and> propertiesSchema_single (JObj data) = Some (JObj data)"
  by (auto simp add: zodResolver_def propertiesSchema_single_JObj get_prop_def
      split: if_splits)

lemma zodResolver_group:
  "zodResolver propertiesSchema_group fieldValues = Some data \<Longrightarrow>
     data = [(''label'', get_prop fieldValues ''label''),
             (''helperText'', get_prop fieldValues ''helperText''),
             (''required'', get_prop fieldValues ''required''),
             (''options'', get_prop fieldValues ''options'')]
     \<and> propertiesSchema_group (JObj data) = Some (JObj data)"
  by (auto simp add: zodResolver_def propertiesSchema_group_JObj get_prop_def
      split: if_splits)

lemma get_prop_parsed_single:
  "data = [(''label'', l), (''helperText'', t), (''required'', r)] \<Longrightarrow>
   [(''label'', get_prop data ''label''), (''helperText'', get_prop data ''helperText''),
    (''required'', get_prop data ''required'')] = data"
  by (simp add: get_prop_def)

lemma get_prop_parsed_group:
  "data = [(''label'', l), (''helperText'', t), (''required'', r), (''options'', os)] \<Longrightarrow>
   [(''label'', get_prop data ''label''), (''helperText'', get_prop data ''helperText''),
    (''required'', get_prop data ''required''), (''options'', get_prop data ''options'')] = data"
  by (simp add: get_prop_def)

text \<open>
  C7: the properties form commits through \<open>handleSubmit\<close>. When the schema rejects the
  field values nothing runs: store and document are unchanged. When it accepts them,
  \<open>applyChanges\<close> runs once: the configuration of the instance handed to \<open>updateElement\<close>
  is a new object holding exactly the validated attributes, with the values of the form,
  and that object passes the schema again.
\<close>

theorem applyChanges_only_when_valid:
  fixes upd :: "jsstring \<Rightarrow> FormElementInstance \<Rightarrow> 'doc \<Rightarrow> 'doc"
  shows
  "(zodResolver propertiesSchema_single fieldValues = None \<longrightarrow>
      handleSubmit (zodResolver propertiesSchema_single) (applyChanges_single upd element)
        fieldValues (h, doc) = (h, doc))
 \<and> (zodResolver propertiesSchema_group fieldValues = None \<longrightarrow>
      handleSubmit (zodResolver propertiesSchema_group) (applyChanges_group upd element)
        fieldValues (h, doc) = (h, doc))
 \<and> (\<forall>data. zodResolver propertiesSchema_single fieldValues = Some data \<longrightarrow>
      handleSubmit (zodResolver propertiesSchema_single) (applyChanges_single upd element)
        fieldValues (h, doc)
        = (h\<lparr>objs := (objs h)(fresh h := data), fresh := Suc (fresh h)\<rparr>,
           upd (inst_id element) (element\<lparr>extraAttributes := fresh h\<rparr>) doc)
      \<and> data = [(''label'', get_prop fieldValues ''label''),
                (''helperText'', get_prop fieldValues ''helperText''),
                (''required'', get_prop fieldValues ''required'')]
      \<and> propertiesSchema_single (JObj data) = Some (JObj data))
 \<and> (\<forall>data. zodResolver propertiesSchema_group fieldValues = Some data \<longrightarrow>
      handleSubmit (zodResolver propertiesSchema_group) (applyChanges_group upd element)
        fieldValues (h, doc)
        = (h\<lparr>objs := (objs h)(fresh h := data), fresh := Suc (fresh h)\<rparr>,
           upd (inst_id element) (element\<lparr>extraAttributes := fresh h\<rparr>) doc)
      \<and> data = [(''label'', get_prop fieldValues ''label''),
                (''helperText'', get_prop fieldValues ''helperText''),
                (''required'', get_prop fieldValues ''required''),
                (''options'', get_prop fieldValues ''options'')]
      \<and> propertiesSchema_group (JObj data) = Some (JObj data))"
proof (intro conjI allI impI)
  assume "zodResolver propertiesSchema_single fieldValues = None"
  then show "handleSubmit (zodResolver propertiesSchema_single) (applyChanges_single upd element)
        fieldValues (h, doc) = (h, doc)"
    by (simp add: handleSubmit_def)
next
  assume "zodResolver propertiesSchema_group fieldValues = None"
  then show "handleSubmit (zodResolver propertiesSchema_group) (applyChanges_group upd element)
        fieldValues (h, doc) = (h, doc)"
    by (simp add: handleSubmit_def)
next
  fix data
  assume ok: "zodResolver propertiesSchema_single fieldValues = Some data"
  note parsed = zodResolver_single [OF ok]
  from parsed show "data = [(''label'', get_prop fieldValues ''label''),
                (''helperText'', get_prop fieldValues ''helperText''),
                (''required'', get_prop fieldValues ''required'')]" by (rule conjunct1)
  from parsed show "propertiesSchema_single (JObj data) = Some (JObj data)" by (rule conjunct2)
  have "applyChanges_single upd element data (h, doc)
          = (h\<lparr>objs := (objs h)(fresh h := data), fresh := Suc (fresh h)\<rparr>,
             upd (inst_id element) (element\<lparr>extraAttributes := fresh h\<rparr>) doc)"
    using get_prop_parsed_single [OF conjunct1 [OF parsed]]
    by (simp add: prod_eq_iff applyChanges_single_heap applyChanges_single_doc)
  with ok show "handleSubmit (zodResolver propertiesSchema_single)
        (applyChanges_single upd element) fieldValues (h, doc)
        = (h\<lparr>objs := (objs h)(fresh h := data), fresh := Suc (fresh h)\<rparr>,
           upd (inst_id element) (element\<lparr>extraAttributes := fresh h\<rparr>) doc)"
    by (simp add: handleSubmit_def)
next
  fix data
  assume ok: "zodResolver propertiesSchema_group fieldValues = Some data"
  note parsed = zodResolver_group [OF ok]
  from parsed show "data = [(''label'', get_prop fieldValues ''label''),
                (''helperText'', get_prop fieldValues ''helperText''),
                (''required'', get_prop fieldValues ''required''),
                (''options'', get_prop fieldValues ''options'')]" by (rule conjunct1)
  from parsed show "propertiesSchema_group (JObj data) = Some (JObj data)" by (rule conjunct2)
  have "applyChanges_group upd element data (h, doc)
          = (h\<lparr>objs := (objs h)(fresh h := data), fresh := Suc (fresh h)\<rparr>,
             upd (inst_id element) (element\<lparr>extraAttributes := fresh h\<rparr>) doc)"
    using get_prop_parsed_group [OF conjunct1 [OF parsed]]
    by (simp add: prod_eq_iff applyChanges_group_heap applyChanges_group_doc)
  with ok show "handleSubmit (zodResolver propertiesSchema_group)
        (applyChanges_group upd element) fieldValues (h, doc)
        = (h\<lparr>objs := (objs h)(fresh h := data), fresh := Suc (fresh h)\<rparr>,
           upd (inst_id element) (element\<lparr>extraAttributes := fresh h\<rparr>) doc)"
    by (simp add: handleSubmit_def)
qed

section \<open>Determinism of submission validation\<close>

lemma validate_frame:
  assumes "d \<in> set fieldDefinitions"
    and "objs h1 (extraAttributes i) = objs h2 (extraAttributes i)"
  shows "validate d h1 i v = validate d h2 i v"
  using assms by (auto simp add: fieldDefinitions_def validate_single_eq validate_group_eq)

lemma validate_fields_frame:
  assumes "set ds \<subseteq> set fieldDefinitions"
    and "\<forall>i\<in>set document. objs h1 (extraAttributes i) = objs h2 (extraAttributes i)"
    and "\<forall>i\<in>set document. vs1 (inst_id i) = vs2 (inst_id i)"
  shows "validate_fields (FormElements ds) h1 vs1 document
           = validate_fields (FormElements ds) h2 vs2 document"
  using assms(2,3)
proof (induction document)
  case Nil
  show ?case by simp
next
  case (Cons i rest)
  then have rest: "validate_fields (FormElements ds) h1 vs1 rest
                     = validate_fields (FormElements ds) h2 vs2 rest"
    by simp
  have val: "submitted vs1 (inst_id i) = submitted vs2 (inst_id i)"
    using Cons.prems(2) by (simp add: submitted_def)
  show ?case
  proof (cases "resolve (FormElements ds) (inst_type i)")
    case (Inl e)
    then show ?thesis by simp
  next
    case (Inr d)
    then have "FormElements ds (inst_type i) = Some d"
      by (simp add: resolve_Inr)
    then have "d \<in> set ds"
      using FormElements_Some by blast
    then have "d \<in> set fieldDefinitions" using assms(1) by blast
    then have "validate d h1 i (submitted vs1 (inst_id i))
                 = validate d h2 i (submitted vs1 (inst_id i))"
      using Cons.prems(1) by (intro validate_frame) simp_all
    also have "\<dots> = validate d h2 i (submitted vs2 (inst_id i))"
      by (simp only: val)
    finally have step: "validate d h1 i (submitted vs1 (inst_id i))
                 = validate d h2 i (submitted vs2 (inst_id i))" .
    show ?thesis by (simp add: Inr rest step split: sum.splits)
  qed
qed

text \<open>
  C8: over a registry of the source's definitions, the validation report is a function of
  the document, of the configuration objects its instances refer to and of the values
  submitted under its ids, and of nothing else; two calls on identical inputs give
  identical reports.
\<close>

theorem validateForm_deterministic:
  assumes "set ds \<subseteq> set fieldDefinitions"
    and "\<forall>i\<in>set document. objs h1 (extraAttributes i) = objs h2 (extraAttributes i)"
    and "\<forall>i\<in>set document. vs1 (inst_id i) = vs2 (inst_id i)"
  shows "validateForm (FormElements ds) h1 document vs1
           = validateForm (FormElements ds) h2 document vs2"
  using validate_fields_frame [OF assms] by (simp add: validateForm_def)

text \<open>
  The report is the same after an unrelated object of the store has been assigned to and
  a value for another id has been added to the submission.
\<close>

theorem validateForm_deterministic_witness:
  "validateForm (FormElements [CheckboxFieldFormElement_group])
     (with_config (group_config True [js ''Option 1'']))
     [placed CheckboxFieldFormElement_group ''a'']
     [js ''a'' \<mapsto> js ''Option 1'']
   = validateForm (FormElements [CheckboxFieldFormElement_group])
     (assign 0 ''required'' (JBool False) (with_config (group_config True [js ''Option 1''])))
     [placed CheckboxFieldFormElement_group ''a'']
     [js ''a'' \<mapsto> js ''Option 1'', js ''b'' \<mapsto> js ''true'']"
proof (rule validateForm_deterministic)
  show "set [CheckboxFieldFormElement_group] \<subseteq> set fieldDefinitions"
    by (simp add: fieldDefinitions_def)
  show "\<forall>i\<in>set [placed CheckboxFieldFormElement_group ''a''].
          objs (with_config (group_config True [js ''Option 1''])) (extraAttributes i)
          = objs (assign 0 ''required'' (JBool False)
                (with_config (group_config True [js ''Option 1'']))) (extraAttributes i)"
    by (simp add: assign_def placed_def)
  show "\<forall>i\<in>set [placed CheckboxFieldFormElement_group ''a''].
          [js ''a'' \<mapsto> js ''Option 1''] (inst_id i)
          = [js ''a'' \<mapsto> js ''Option 1'', js ''b'' \<mapsto> js ''true''] (inst_id i)"
    by (simp add: js_def)
qed

text \<open>
  A group form with no option is rejected and changes nothing; one with an option and a
  stray attribute is committed without the stray attribute, for the instance \<open>"a"\<close> only.
\<close>

theorem applyChanges_only_when_valid_witness:
  "handleSubmit (zodResolver propertiesSchema_group)
     (applyChanges_group updateElement (construct CheckboxFieldFormElement_group (js ''a'')))
     (group_config True [])
     (loaded, [construct CheckboxFieldFormElement_group (js ''a''),
               construct CheckboxFieldFormElement_group (js ''b'')])
   = (loaded, [construct CheckboxFieldFormElement_group (js ''a''),
               construct CheckboxFieldFormElement_group (js ''b'')])
 \<and> handleSubmit (zodResolver propertiesSchema_group)
     (applyChanges_group updateElement (construct CheckboxFieldFormElement_group (js ''a'')))
     ((''colour'', JStr (js ''red'')) # group_config True [js ''Tea''])
     (loaded, [construct CheckboxFieldFormElement_group (js ''a''),
               construct CheckboxFieldFormElement_group (js ''b'')])
   = (loaded\<lparr>objs := (objs loaded)(2 := group_config True [js ''Tea'']), fresh := 3\<rparr>,
      [\<lparr>inst_id = js ''a'', inst_type = ''CheckboxField'', extraAttributes = 2\<rparr>,
       construct CheckboxFieldFormElement_group (js ''b'')])"
proof -
  have bad: "zodResolver propertiesSchema_group (group_config True []) = None"
    by (simp add: zodResolver_def propertiesSchema_group_JObj group_config_def get_prop_def)
  have good: "zodResolver propertiesSchema_group
      ((''colour'', JStr (js ''red'')) # group_config True [js ''Tea''])
      = Some (group_config True [js ''Tea''])"
    by (auto simp add: zodResolver_def propertiesSchema_group_JObj group_config_def
        get_prop_def js_def)
  note rejected = applyChanges_only_when_valid
      [of "group_config True []" updateElement
          "construct CheckboxFieldFormElement_group (js ''a'')" loaded
          "[construct CheckboxFieldFormElement_group (js ''a''),
            construct CheckboxFieldFormElement_group (js ''b'')]",
       THEN conjunct2, THEN conjunct1, THEN mp, OF bad]
  note accepted = applyChanges_only_when_valid
      [of "(''colour'', JStr (js ''red'')) # group_config True [js ''Tea'']" updateElement
          "construct CheckboxFieldFormElement_group (js ''a'')" loaded
          "[construct CheckboxFieldFormElement_group (js ''a''),
            construct CheckboxFieldFormElement_group (js ''b'')]",
       THEN conjunct2, THEN conjunct2, THEN conjunct2, THEN spec, THEN mp, OF good,
       THEN conjunct1]
  show ?thesis
    unfolding rejected accepted
    by (simp add: updateElement_def loaded_def js_def)
qed

end
